theory Spec2Isabelle
  imports Complex_Main
begin

section \<open>Data model of \<open>ledger.py\<close>\<close>

text \<open>
  Python's \<open>Decimal\<close> is modelled by the rationals: every finite decimal is a rational,
  and addition, negation, multiplication and comparison of decimals are the rational
  ones as long as the results stay within the precision of the decimal context (28
  significant digits by default). Non-finite decimals (\<open>NaN\<close>, \<open>Infinity\<close>) and results
  longer than the context precision are outside the model.
\<close>

type_synonym decimal = rat

datatype AccountType = ASSET | LIABILITY | EQUITY | INCOME | EXPENSE

datatype JournalEntryLineType = DEBIT | CREDIT

text \<open>
  Every exception the modelled code raises is a Python \<open>ValueError\<close>; the constructors
  stand for the messages:
  \<^item> \<open>InvalidAmount\<close>: "Transaction amount must be non-negative."
  \<^item> \<open>InvalidLine\<close>: "Journal entry line amount must be positive."
  \<^item> \<open>UnbalancedEntry\<close>: "Journal entry must be balanced (total debits must equal total credits)."
  \<^item> \<open>DuplicateAccount n\<close>: "Account with name 'n' already exists."
  \<^item> \<open>AccountNotFound n\<close>: "Account with name 'n' not found."
  \<^item> \<open>NotEnoughStock p s q\<close>: "Not enough stock for product p. Available: s, Requested: q"
  \<^item> \<open>ProductNotFound p\<close>: "Product p not found in inventory."
\<close>

datatype error =
    InvalidAmount
  | InvalidLine
  | UnbalancedEntry
  | DuplicateAccount string
  | AccountNotFound string
  | NotEnoughStock string int int
  | ProductNotFound string

record Account =
  name :: string
  account_type :: AccountType
  balance :: decimal

text \<open>
  A method that mutates its object returns the outcome (\<open>Inl\<close> the exception raised,
  \<open>Inr\<close> the value returned) together with the object as the call leaves it, so that
  what a raising call has already changed stays visible.
\<close>

definition apply_transaction :: "Account \<Rightarrow> decimal \<Rightarrow> bool \<Rightarrow> (error + unit) \<times> Account" where
  "apply_transaction self amount is_debit =
     (if amount < 0 then (Inl InvalidAmount, self)
      else (Inr (),
        (case account_type self of
           ASSET \<Rightarrow> self\<lparr>balance := balance self + (if is_debit then amount else - amount)\<rparr>
         | LIABILITY \<Rightarrow> self\<lparr>balance := balance self + (if is_debit then - amount else amount)\<rparr>
         | EQUITY \<Rightarrow> self\<lparr>balance := balance self + (if is_debit then - amount else amount)\<rparr>
         | INCOME \<Rightarrow> self\<lparr>balance := balance self + (if is_debit then - amount else amount)\<rparr>
         | EXPENSE \<Rightarrow> self\<lparr>balance := balance self + (if is_debit then amount else - amount)\<rparr>)))"

definition credit :: "Account \<Rightarrow> decimal \<Rightarrow> (error + unit) \<times> Account" where
  "credit self amount = apply_transaction self amount False"

definition debit :: "Account \<Rightarrow> decimal \<Rightarrow> (error + unit) \<times> Account" where
  "debit self amount = apply_transaction self amount True"







text \<open>
  Account objects are shared by reference between the ledger's registry and the lines of
  journal entries, so they live in a store indexed by references. A Python reference
  always denotes an object, hence the store is a total function.
\<close>

type_synonym ref = nat

type_synonym date = nat

record JournalEntryLine =
  account :: ref
  amount :: decimal
  entry_type :: JournalEntryLineType

definition JournalEntryLine_init ::
  "ref \<Rightarrow> decimal \<Rightarrow> JournalEntryLineType \<Rightarrow> error + JournalEntryLine" where
  "JournalEntryLine_init acc amt ty =
     (if amt \<le> 0 then Inl InvalidLine
      else Inr \<lparr>account = acc, amount = amt, entry_type = ty\<rparr>)"

record JournalEntry =
  date :: date
  description :: string
  lines :: "JournalEntryLine list"
  entry_id :: string

definition JournalEntry_init :: "date \<Rightarrow> string \<Rightarrow> string \<Rightarrow> JournalEntry" where
  \<comment> \<open>the third argument is the identifier \<open>uuid.uuid4()\<close> returns\<close>
  "JournalEntry_init d descr uid = \<lparr>date = d, description = descr, lines = [], entry_id = uid\<rparr>"

definition add_line ::
  "JournalEntry \<Rightarrow> ref \<Rightarrow> decimal \<Rightarrow> JournalEntryLineType \<Rightarrow> error + JournalEntry" where
  "add_line self acc amt ty =
     (case JournalEntryLine_init acc amt ty of
        Inl e \<Rightarrow> Inl e
      | Inr l \<Rightarrow> Inr (self\<lparr>lines := lines self @ [l]\<rparr>))"

text \<open>Python's \<open>sum\<close>: a left fold of \<open>+\<close> from \<open>0\<close>.\<close>

definition py_sum :: "decimal list \<Rightarrow> decimal" where
  "py_sum xs = foldl (+) 0 xs"

definition is_balanced :: "JournalEntry \<Rightarrow> bool" where
  "is_balanced self =
     (let total_debits = py_sum (map amount (filter (\<lambda>line. entry_type line = DEBIT) (lines self)));
          total_credits = py_sum (map amount (filter (\<lambda>line. entry_type line = CREDIT) (lines self)))
      in total_debits = total_credits)"

text \<open>
  The state the program works on: the store of \<open>Account\<close> objects, the two fields of the
  \<open>Ledger\<close> instance (\<open>accounts\<close>, a dictionary in insertion order from names to account
  objects, and \<open>journal_entries\<close>), and the \<open>products\<close> dictionary of the \<open>Inventory\<close>
  instance.
\<close>

record Product =
  product_id :: string
  product_name :: string
  price :: decimal
  stock :: int
  cost_price :: decimal

record system =
  heap :: "ref \<Rightarrow> Account"
  accounts :: "(string \<times> ref) list"
  journal_entries :: "JournalEntry list"
  products :: "string \<rightharpoonup> Product"

definition add_account :: "ref \<Rightarrow> system \<Rightarrow> (error + unit) \<times> system" where
  "add_account acc s =
     (let n = name (heap s acc)
      in if n \<in> fst ` set (accounts s) then (Inl (DuplicateAccount n), s)
         else (Inr (), s\<lparr>accounts := accounts s @ [(n, acc)]\<rparr>))"

definition get_account :: "system \<Rightarrow> string \<Rightarrow> error + ref" where
  "get_account s n =
     (case map_of (accounts s) n of
        None \<Rightarrow> Inl (AccountNotFound n)
      | Some acc \<Rightarrow> Inr acc)"

text \<open>
  The loop of \<open>record_entry\<close> over the lines of the entry: each line debits or credits
  the account object it refers to; a call that raises ends the loop with the store as it
  is at that moment.
\<close>

fun apply_lines :: "JournalEntryLine list \<Rightarrow> (ref \<Rightarrow> Account) \<Rightarrow> (error + unit) \<times> (ref \<Rightarrow> Account)" where
  "apply_lines [] h = (Inr (), h)"
| "apply_lines (line # rest) h =
     (case (if entry_type line = DEBIT then debit (h (account line)) (amount line)
            else credit (h (account line)) (amount line)) of
        (Inl e, a') \<Rightarrow> (Inl e, h(account line := a'))
      | (Inr _, a') \<Rightarrow> apply_lines rest (h(account line := a')))"

definition record_entry :: "JournalEntry \<Rightarrow> system \<Rightarrow> (error + unit) \<times> system" where
  "record_entry entry s =
     (if \<not> is_balanced entry then (Inl UnbalancedEntry, s)
      else (case apply_lines (lines entry) (heap s) of
              (Inl e, h') \<Rightarrow> (Inl e, s\<lparr>heap := h'\<rparr>)
            | (Inr _, h') \<Rightarrow>
                (Inr (), s\<lparr>heap := h', journal_entries := journal_entries s @ [entry]\<rparr>)))"






text \<open>
  What \<open>add_account\<close> maintains: every name is registered once, and the object registered
  under a name carries that name.
\<close>

definition ledger_wf :: "system \<Rightarrow> bool" where
  "ledger_wf s =
     (distinct (map fst (accounts s)) \<and>
      list_all (\<lambda>(n, r). name (heap s r) = n) (accounts s))"


section \<open>Data model of \<open>orders.py\<close>\<close>

definition Product_check_stock :: "Product \<Rightarrow> int \<Rightarrow> bool" where
  "Product_check_stock self q = (stock self \<ge> q)"

definition Product_update_stock :: "Product \<Rightarrow> int \<Rightarrow> (error + unit) \<times> Product" where
  "Product_update_stock self q =
     (if Product_check_stock self q then (Inr (), self\<lparr>stock := stock self - q\<rparr>)
      else (Inl (NotEnoughStock (product_id self) (stock self) q), self))"

definition get_product :: "(string \<rightharpoonup> Product) \<Rightarrow> string \<Rightarrow> Product option" where
  "get_product inventory pid = inventory pid"

definition check_stock :: "(string \<rightharpoonup> Product) \<Rightarrow> string \<Rightarrow> int \<Rightarrow> bool" where
  "check_stock inventory pid q =
     (case get_product inventory pid of
        Some product \<Rightarrow> Product_check_stock product q
      | None \<Rightarrow> False)"

definition update_stock ::
  "(string \<rightharpoonup> Product) \<Rightarrow> string \<Rightarrow> int \<Rightarrow> (error + unit) \<times> (string \<rightharpoonup> Product)" where
  "update_stock inventory pid q =
     (case get_product inventory pid of
        Some product \<Rightarrow>
          (case Product_update_stock product q of (r, product') \<Rightarrow> (r, inventory(pid \<mapsto> product')))
      | None \<Rightarrow> (Inl (ProductNotFound pid), inventory))"

definition get_product_cost :: "(string \<rightharpoonup> Product) \<Rightarrow> string \<Rightarrow> decimal option" where
  "get_product_cost inventory pid =
     (case get_product inventory pid of
        Some product \<Rightarrow> Some (cost_price product)
      | None \<Rightarrow> None)"

text \<open>
  An item of an \<open>Order\<close> is the dictionary that the validation loop builds, with the
  keys \<open>product_id\<close>, \<open>quantity\<close>, \<open>unit_price\<close> and \<open>unit_cost\<close>.
\<close>

record item =
  item_product_id :: string
  quantity :: int
  unit_price :: decimal
  unit_cost :: decimal

record Order =
  order_id :: string
  customer_id :: string
  items :: "item list"
  customer_name :: "string option"
  shipping_address :: "string option"
  order_date :: date

definition calculate_total :: "Order \<Rightarrow> decimal" where
  "calculate_total self = py_sum (map (\<lambda>i. of_int (quantity i) * unit_price i) (items self))"

definition calculate_total_cost_of_goods_sold :: "Order \<Rightarrow> decimal" where
  "calculate_total_cost_of_goods_sold self =
     py_sum (map (\<lambda>i. of_int (quantity i) * unit_cost i) (items self))"

text \<open>
  The order request is a dictionary: a key may be absent (\<open>None\<close>). The value under
  \<open>quantity\<close> is an integer or something else; the value under \<open>unit_price\<close> is taken after
  its conversion to \<open>Decimal\<close>; the value under \<open>order_date\<close> is taken after its
  conversion to a date, \<open>None\<close> when the key is absent or the text does not parse.
\<close>

datatype pyval = PyInt int | PyOther

record item_data =
  in_product_id :: "string option"
  in_quantity :: "pyval option"
  in_unit_price :: "decimal option"

record order_data =
  in_customer_id :: "string option"
  in_items :: "item_data list option"
  in_customer_name :: "string option"
  in_shipping_address :: "string option"
  in_order_date :: "date option"

text \<open>
  The dictionary \<open>accept_purchase_order\<close> returns: \<open>Error\<close> for status "error" with its
  message, \<open>Success\<close> for status "success" with the order identifier and the total
  (the decimal that the source hands to \<open>float\<close>).
  \<^item> \<open>MissingOrderFields fs\<close>: "Missing required order information: fs."
  \<^item> \<open>NoItems\<close>: "Order must contain at least one item."
  \<^item> \<open>InvalidItemData i fs\<close>: "Invalid item data in order (item i). Missing: fs."
  \<^item> \<open>BadQuantity p\<close>: "Item quantity for 'p' must be a positive integer."
  \<^item> \<open>BadUnitPrice p\<close>: "Item unit price for 'p' must be a non-negative number."
  \<^item> \<open>InsufficientStock p\<close>: "Insufficient stock for product p."
  \<^item> \<open>PaymentFailed\<close>: "Payment processing failed."
  \<^item> \<open>SaveFailed\<close>: "Failed to save order to database: ..."
  \<^item> \<open>EntryNotBalanced\<close>: "Internal error: Journal entry for sale is not balanced."
  \<^item> \<open>TransactionFailed e\<close>: "Failed to record financial transaction: e"
\<close>

datatype order_error =
    MissingOrderFields "string list"
  | NoItems
  | InvalidItemData nat "string list"
  | BadQuantity string
  | BadUnitPrice string
  | InsufficientStock string
  | PaymentFailed
  | SaveFailed
  | EntryNotBalanced
  | TransactionFailed error

datatype order_result = Error order_error | Success string decimal

text \<open>The \<open>orders_collection\<close> argument: absent, or a collection whose \<open>insert_one\<close>
  returns or raises.\<close>

datatype orders_collection = NoCollection | InsertReturns | InsertRaises

definition missing_item_fields :: "item_data \<Rightarrow> string list" where
  "missing_item_fields d =
     (if in_product_id d = None then [''product_id''] else []) @
     (if in_quantity d = None then [''quantity''] else []) @
     (if in_unit_price d = None then [''unit_price''] else [])"

text \<open>The validation loop over the items of the request, from item index \<open>idx\<close> on.\<close>

fun process_items :: "(string \<rightharpoonup> Product) \<Rightarrow> nat \<Rightarrow> item_data list \<Rightarrow> order_error + item list" where
  "process_items inventory idx [] = Inr []"
| "process_items inventory idx (d # ds) =
     (case (in_product_id d, in_quantity d, in_unit_price d) of
        (Some pid, Some q, Some up) \<Rightarrow>
          (case q of
             PyOther \<Rightarrow> Inl (BadQuantity pid)
           | PyInt n \<Rightarrow>
               if n \<le> 0 then Inl (BadQuantity pid)
               else if up < 0 then Inl (BadUnitPrice pid)
               else (let uc = (case get_product_cost inventory pid of None \<Rightarrow> 0 | Some c \<Rightarrow> c)
                     in case process_items inventory (idx + 1) ds of
                          Inl e \<Rightarrow> Inl e
                        | Inr rest \<Rightarrow>
                            Inr (\<lparr>item_product_id = pid, quantity = n,
                                  unit_price = up, unit_cost = uc\<rparr> # rest)))
      | _ \<Rightarrow> Inl (InvalidItemData (idx + 1) (missing_item_fields d)))"

text \<open>The stock check loop: the product of the first item that is not in stock.\<close>

fun check_items :: "(string \<rightharpoonup> Product) \<Rightarrow> item list \<Rightarrow> string option" where
  "check_items inventory [] = None"
| "check_items inventory (i # rest) =
     (if \<not> check_stock inventory (item_product_id i) (quantity i) then Some (item_product_id i)
      else check_items inventory rest)"

text \<open>The stock update loop; \<open>update_stock\<close> may raise, and nothing catches it.\<close>

fun update_items :: "item list \<Rightarrow> (string \<rightharpoonup> Product) \<Rightarrow> (error + unit) \<times> (string \<rightharpoonup> Product)" where
  "update_items [] inventory = (Inr (), inventory)"
| "update_items (i # rest) inventory =
     (case update_stock inventory (item_product_id i) (quantity i) of
        (Inl e, inventory') \<Rightarrow> (Inl e, inventory')
      | (Inr _, inventory') \<Rightarrow> update_items rest inventory')"

text \<open>The loop that adds the stock back when the payment fails.\<close>

fun restore_items :: "item list \<Rightarrow> (string \<rightharpoonup> Product) \<Rightarrow> (error + unit) \<times> (string \<rightharpoonup> Product)" where
  "restore_items [] inventory = (Inr (), inventory)"
| "restore_items (i # rest) inventory =
     (case update_stock inventory (item_product_id i) (- quantity i) of
        (Inl e, inventory') \<Rightarrow> (Inl e, inventory')
      | (Inr _, inventory') \<Rightarrow> restore_items rest inventory')"

text \<open>
  Inside the \<open>try\<close> of step 6: the accounts are looked up and the lines are added to the
  entry, in the order of the source; any of these calls may raise.
\<close>

definition build_sale_entry ::
  "system \<Rightarrow> JournalEntry \<Rightarrow> decimal \<Rightarrow> decimal \<Rightarrow> error + JournalEntry" where
  "build_sale_entry s sale_entry total_amount total_cogs =
     (case get_account s ''Cash'' of Inl e \<Rightarrow> Inl e | Inr cash_account \<Rightarrow>
     (case get_account s ''Sales Revenue'' of Inl e \<Rightarrow> Inl e | Inr sales_revenue_account \<Rightarrow>
     (case add_line sale_entry cash_account total_amount DEBIT of Inl e \<Rightarrow> Inl e | Inr e1 \<Rightarrow>
     (case add_line e1 sales_revenue_account total_amount CREDIT of Inl e \<Rightarrow> Inl e | Inr e2 \<Rightarrow>
        if total_cogs > 0 then
          (case get_account s ''Cost of Goods Sold'' of Inl e \<Rightarrow> Inl e | Inr cogs_account \<Rightarrow>
          (case get_account s ''Inventory'' of Inl e \<Rightarrow> Inl e | Inr inventory_asset_account \<Rightarrow>
          (case add_line e2 cogs_account total_cogs DEBIT of Inl e \<Rightarrow> Inl e | Inr e3 \<Rightarrow>
             add_line e3 inventory_asset_account total_cogs CREDIT)))
        else Inr e2))))"

text \<open>
  Steps 3 to 7 of \<open>accept_purchase_order\<close>, on the state the stock update has left. The
  result is \<open>Inr\<close> the dictionary returned, or \<open>Inl\<close> an exception that leaves the function.
\<close>

definition finish_order ::
  "Order \<Rightarrow> orders_collection \<Rightarrow> string \<Rightarrow> system \<Rightarrow> (error + order_result) \<times> system" where
  "finish_order new_order coll eid s =
     (let total_amount = calculate_total new_order;
          total_cogs = calculate_total_cost_of_goods_sold new_order;
          payment_successful = True
      in if \<not> payment_successful then
           (case restore_items (items new_order) (products s) of
              (Inl e, inventory') \<Rightarrow> (Inl e, s\<lparr>products := inventory'\<rparr>)
            | (Inr _, inventory') \<Rightarrow> (Inr (Error PaymentFailed), s\<lparr>products := inventory'\<rparr>))
         else if coll = InsertRaises then (Inr (Error SaveFailed), s)
         else
           (let sale_entry = JournalEntry_init (order_date new_order)
                               (''Sale for order '' @ order_id new_order) eid
            in case build_sale_entry s sale_entry total_amount total_cogs of
                 Inl e \<Rightarrow> (Inr (Error (TransactionFailed e)), s)
               | Inr entry \<Rightarrow>
                   if \<not> is_balanced entry then (Inr (Error EntryNotBalanced), s)
                   else (case record_entry entry s of
                           (Inl e, s') \<Rightarrow> (Inr (Error (TransactionFailed e)), s')
                         | (Inr _, s') \<Rightarrow>
                             (Inr (Success (order_id new_order) total_amount), s'))))"

text \<open>
  \<open>accept_purchase_order\<close>: the request, the collection, today's date, and the two
  identifiers \<open>uuid.uuid4()\<close> returns for the order and for the journal entry.
\<close>

definition accept_purchase_order ::
  "order_data \<Rightarrow> orders_collection \<Rightarrow> date \<Rightarrow> string \<Rightarrow> string \<Rightarrow> system
     \<Rightarrow> (error + order_result) \<times> system" where
  "accept_purchase_order od coll today oid eid s =
     (case (in_customer_id od, in_items od) of
        (Some cust, Some raw_items) \<Rightarrow>
          if raw_items = [] then (Inr (Error NoItems), s)
          else
            (case process_items (products s) 0 raw_items of
               Inl err \<Rightarrow> (Inr (Error err), s)
             | Inr processed_items \<Rightarrow>
                 (let current_order_date = (case in_order_date od of Some d \<Rightarrow> d | None \<Rightarrow> today);
                      new_order = \<lparr>order_id = oid, customer_id = cust, items = processed_items,
                                   customer_name = in_customer_name od,
                                   shipping_address = in_shipping_address od,
                                   order_date = current_order_date\<rparr>
                  in case check_items (products s) (items new_order) of
                       Some pid \<Rightarrow> (Inr (Error (InsufficientStock pid)), s)
                     | None \<Rightarrow>
                         (case update_items (items new_order) (products s) of
                            (Inl e, inventory') \<Rightarrow> (Inl e, s\<lparr>products := inventory'\<rparr>)
                          | (Inr _, inventory') \<Rightarrow>
                              finish_order new_order coll eid (s\<lparr>products := inventory'\<rparr>))))
      | _ \<Rightarrow>
          (Inr (Error (MissingOrderFields
             ((if in_customer_id od = None then [''customer_id''] else []) @
              (if in_items od = None then [''items''] else [])))), s))"

text \<open>
  A well-formed order request: a customer id and at least one item, each item with a
  product id, a positive integer quantity and a non-negative unit price.
\<close>

definition well_formed_item :: "item_data \<Rightarrow> bool" where
  "well_formed_item d =
     (case (in_product_id d, in_quantity d, in_unit_price d) of
        (Some pid, Some (PyInt n), Some up) \<Rightarrow> 0 < n \<and> 0 \<le> up
      | _ \<Rightarrow> False)"

definition well_formed_order :: "order_data \<Rightarrow> bool" where
  "well_formed_order od =
     (case (in_customer_id od, in_items od) of
        (Some cust, Some raw_items) \<Rightarrow> raw_items \<noteq> [] \<and> list_all well_formed_item raw_items
      | _ \<Rightarrow> False)"

section \<open>The sample set-up of \<open>orders.py\<close>\<close>

text \<open>
  The inventory and the chart of accounts that the script part of \<open>orders.py\<close> builds:
  two products, and eight accounts registered with \<open>add_account\<close> in this order.
\<close>

definition sample_heap :: "ref \<Rightarrow> Account" where
  "sample_heap =
     (\<lambda>r. \<lparr>name = ''unregistered'', account_type = ASSET, balance = 0\<rparr>)
       (0 := \<lparr>name = ''Cash'', account_type = ASSET, balance = 25000\<rparr>,
        1 := \<lparr>name = ''Accounts Receivable'', account_type = ASSET, balance = 0\<rparr>,
        2 := \<lparr>name = ''Inventory'', account_type = ASSET, balance = 17000\<rparr>,
        3 := \<lparr>name = ''Accounts Payable'', account_type = LIABILITY, balance = 0\<rparr>,
        4 := \<lparr>name = ''Owners Capital'', account_type = EQUITY, balance = 42000\<rparr>,
        5 := \<lparr>name = ''Retained Earnings'', account_type = EQUITY, balance = 0\<rparr>,
        6 := \<lparr>name = ''Sales Revenue'', account_type = INCOME, balance = 0\<rparr>,
        7 := \<lparr>name = ''Cost of Goods Sold'', account_type = EXPENSE, balance = 0\<rparr>)"

definition sample_products :: "string \<rightharpoonup> Product" where
  "sample_products =
     [''prod_abc'' \<mapsto> \<lparr>product_id = ''prod_abc'', product_name = ''Laptop'',
                         price = 1200, stock = 20, cost_price = 800\<rparr>,
      ''prod_xyz'' \<mapsto> \<lparr>product_id = ''prod_xyz'', product_name = ''Mouse'',
                         price = 25, stock = 100, cost_price = 10\<rparr>]"

definition sample_system :: system where
  "sample_system =
     \<lparr>heap = sample_heap,
      accounts = [(''Cash'', 0), (''Accounts Receivable'', 1), (''Inventory'', 2),
                  (''Accounts Payable'', 3), (''Owners Capital'', 4),
                  (''Retained Earnings'', 5), (''Sales Revenue'', 6),
                  (''Cost of Goods Sold'', 7)],
      journal_entries = [],
      products = sample_products\<rparr>"

text \<open>The same set-up with no account registered under the name \<open>Cash\<close>.\<close>

definition no_cash_system :: system where
  "no_cash_system = sample_system\<lparr>accounts := tl (accounts sample_system)\<rparr>"

definition order_item :: "string \<Rightarrow> int \<Rightarrow> decimal \<Rightarrow> item_data" where
  "order_item pid n up =
     \<lparr>in_product_id = Some pid, in_quantity = Some (PyInt n), in_unit_price = Some up\<rparr>"

definition order_of :: "string \<Rightarrow> item_data list \<Rightarrow> order_data" where
  "order_of cust ds =
     \<lparr>in_customer_id = Some cust, in_items = Some ds, in_customer_name = None,
      in_shipping_address = None, in_order_date = None\<rparr>"

text \<open>The first sample order of the script: its product ids are not in the inventory.\<close>

definition sample_order_1 :: order_data where
  "sample_order_1 =
     order_of ''cust_7890'' [order_item ''prod_abc1'' 1 1200, order_item ''prod_xyz1'' 2 25]"

text \<open>An order of two units of the mouse at 25.00, whose cost price is 10.00.\<close>

definition mouse_order :: order_data where
  "mouse_order = order_of ''cust_1236'' [order_item ''prod_xyz'' 2 25]"

text \<open>An order asking for 10 units where 5 are in stock.\<close>

definition short_stock_system :: system where
  "short_stock_system =
     sample_system\<lparr>products := sample_products(''prod_xyz'' \<mapsto>
        \<lparr>product_id = ''prod_xyz'', product_name = ''Mouse'',
         price = 25, stock = 5, cost_price = 10\<rparr>)\<rparr>"

definition large_order :: order_data where
  "large_order = order_of ''cust_1236'' [order_item ''prod_xyz'' 10 25]"



definition empty_entry :: JournalEntry where
  "empty_entry = JournalEntry_init 0 ''nothing'' ''e3''"

section \<open>Accounts\<close>











section \<open>Journal entries\<close>




section \<open>Recording entries\<close>



text \<open>
  Claim C9. An entry with no lines is balanced, and \<open>record_entry\<close> returns without
  raising: the entry is appended to the committed entries and nothing else changes, so
  every account keeps its balance.
\<close>

theorem C9_empty_entry_accepted:
  assumes "lines e = []"
  shows "is_balanced e \<and>
         record_entry e s = (Inr (), s\<lparr>journal_entries := journal_entries s @ [e]\<rparr>)"
  using assms by (simp add: is_balanced_def py_sum_def record_entry_def)

theorem C9_empty_entry_accepted_witness:
  "lines empty_entry = [] \<and> is_balanced empty_entry \<and>
   record_entry empty_entry sample_system
     = (Inr (), sample_system\<lparr>journal_entries := journal_entries sample_system @ [empty_entry]\<rparr>)"
proof -
  have h: "lines empty_entry = []"
    by (simp add: empty_entry_def JournalEntry_init_def)
  show ?thesis using h C9_empty_entry_accepted [OF h, of sample_system] by simp
qed

section \<open>The aggregate of the ledger\<close>














lemma add_account_wf:
  assumes "ledger_wf s"
  shows "ledger_wf (snd (add_account r s))"
  using assms by (auto simp: add_account_def ledger_wf_def Let_def)






section \<open>The order workflow\<close>

lemmas order_defs =
  accept_purchase_order_def order_of_def order_item_def get_product_cost_def
  get_product_def check_stock_def Product_check_stock_def update_stock_def
  Product_update_stock_def finish_order_def calculate_total_def
  calculate_total_cost_of_goods_sold_def py_sum_def JournalEntry_init_def
  build_sale_entry_def get_account_def add_line_def JournalEntryLine_init_def
  is_balanced_def record_entry_def debit_def credit_def apply_transaction_def

lemma process_items_well_formed:
  assumes "list_all well_formed_item ds"
  shows "\<exists>its. process_items inventory idx ds = Inr its \<and>
           map (\<lambda>i. (Some (item_product_id i), Some (PyInt (quantity i)))) its =
           map (\<lambda>d. (in_product_id d, in_quantity d)) ds"
  using assms
proof (induction ds arbitrary: idx)
  case Nil
  show ?case by simp
next
  case (Cons d ds)
  from Cons.prems have wf: "well_formed_item d" and rest: "list_all well_formed_item ds"
    by simp_all
  from wf obtain pid n up where d: "in_product_id d = Some pid" "in_quantity d = Some (PyInt n)"
    "in_unit_price d = Some up" and pos: "0 < n" "0 \<le> up"
    by (auto simp: well_formed_item_def split: option.splits pyval.splits)
  from Cons.IH [OF rest, of "idx + 1"] obtain its where
    its: "process_items inventory (idx + 1) ds = Inr its"
      "map (\<lambda>i. (Some (item_product_id i), Some (PyInt (quantity i)))) its =
       map (\<lambda>d. (in_product_id d, in_quantity d)) ds"
    by blast
  show ?case using d pos its by (simp add: Let_def)
qed

lemma check_items_short:
  assumes "i \<in> set its" and "\<not> check_stock inventory (item_product_id i) (quantity i)"
  shows "\<exists>pid. check_items inventory its = Some pid"
  using assms by (induction its) auto

lemma rejected_when_short:
  assumes wf: "well_formed_order od" and ds: "in_items od = Some ds" and d: "d \<in> set ds"
    and pid: "in_product_id d = Some pid" and n: "in_quantity d = Some (PyInt n)"
    and short: "\<not> check_stock (products s) pid n"
  shows "\<exists>pid'. accept_purchase_order od coll today oid eid s =
           (Inr (Error (InsufficientStock pid')), s)"
proof -
  from wf ds obtain cust where cust: "in_customer_id od = Some cust"
    and ne: "ds \<noteq> []" and all: "list_all well_formed_item ds"
    by (auto simp: well_formed_order_def split: option.splits)
  from process_items_well_formed [OF all, of "products s" 0] obtain its where
    its: "process_items (products s) 0 ds = Inr its"
      "map (\<lambda>i. (Some (item_product_id i), Some (PyInt (quantity i)))) its =
       map (\<lambda>d. (in_product_id d, in_quantity d)) ds"
    by blast
  have "(Some pid, Some (PyInt n)) \<in> set (map (\<lambda>d. (in_product_id d, in_quantity d)) ds)"
    using d pid n by force
  then have "(Some pid, Some (PyInt n)) \<in>
               set (map (\<lambda>i. (Some (item_product_id i), Some (PyInt (quantity i)))) its)"
    using its(2) by simp
  then obtain i where i: "i \<in> set its" "item_product_id i = pid" "quantity i = n"
    by auto
  then have "\<not> check_stock (products s) (item_product_id i) (quantity i)"
    using short by simp
  with i(1) obtain pid' where "check_items (products s) its = Some pid'"
    using check_items_short by blast
  then show ?thesis
    using cust ds ne its(1) by (simp add: accept_purchase_order_def Let_def)
qed

text \<open>
  Claim C7. For a well-formed order in which some item asks for more units than its
  product has in stock, \<open>accept_purchase_order\<close> returns the error result for insufficient
  stock, and the state is the one before the call: no stock, no account balance and no
  committed entry changes.
\<close>

theorem C7_insufficient_stock:
  assumes "well_formed_order od" and "in_items od = Some ds" and "d \<in> set ds"
    and "in_product_id d = Some pid" and "in_quantity d = Some (PyInt n)"
    and "get_product (products s) pid = Some p" and "stock p < n"
  shows "\<exists>pid'. accept_purchase_order od coll today oid eid s =
           (Inr (Error (InsufficientStock pid')), s)"
proof -
  have "\<not> check_stock (products s) pid n"
    using assms(6,7) by (simp add: check_stock_def Product_check_stock_def)
  with assms(1-5) show ?thesis by (rule rejected_when_short)
qed

theorem C7_insufficient_stock_witness:
  "well_formed_order large_order \<and>
   get_product (products short_stock_system) ''prod_xyz'' =
     Some \<lparr>product_id = ''prod_xyz'', product_name = ''Mouse'',
           price = 25, stock = 5, cost_price = 10\<rparr> \<and>
   (\<exists>pid'. accept_purchase_order large_order NoCollection 0 ''o1'' ''e1'' short_stock_system =
      (Inr (Error (InsufficientStock pid')), short_stock_system))"
proof -
  have wf: "well_formed_order large_order"
    by (simp add: well_formed_order_def well_formed_item_def large_order_def order_of_def
        order_item_def)
  have ds: "in_items large_order = Some [order_item ''prod_xyz'' 10 25]"
    by (simp add: large_order_def order_of_def)
  have d: "order_item ''prod_xyz'' 10 25 \<in> set [order_item ''prod_xyz'' 10 25]"
    by simp
  have pid: "in_product_id (order_item ''prod_xyz'' 10 25) = Some ''prod_xyz''"
    and n: "in_quantity (order_item ''prod_xyz'' 10 25) = Some (PyInt 10)"
    by (simp_all add: order_item_def)
  have p: "get_product (products short_stock_system) ''prod_xyz'' =
     Some \<lparr>product_id = ''prod_xyz'', product_name = ''Mouse'',
           price = 25, stock = 5, cost_price = 10\<rparr>"
    by (simp add: get_product_def short_stock_system_def)
  have short: "stock \<lparr>product_id = ''prod_xyz'', product_name = ''Mouse'',
           price = 25, stock = 5, cost_price = 10\<rparr> < 10"
    by simp
  show ?thesis
    using wf p C7_insufficient_stock [OF wf ds d pid n p short] by blast
qed

text \<open>The scenario: 10 units asked of a product with 5 in stock.\<close>

lemma short_stock_scenario:
  "accept_purchase_order large_order NoCollection 0 ''o1'' ''e1'' short_stock_system =
      (Inr (Error (InsufficientStock ''prod_xyz'')), short_stock_system)"
  by (simp add: order_defs large_order_def short_stock_system_def sample_system_def
      sample_products_def)

text \<open>
  Claim C10. For a product id that is not in the inventory, \<open>check_stock\<close> returns false
  for every quantity and does not raise; hence a well-formed order with an item of such a
  product id is turned down by \<open>accept_purchase_order\<close> with the error result for
  insufficient stock (there is no result for a product that is not found), and the state
  is the one before the call.
\<close>

theorem C10_unknown_product:
  assumes "get_product (products s) pid = None"
  shows "(\<forall>q. \<not> check_stock (products s) pid q) \<and>
         (well_formed_order od \<longrightarrow> in_items od = Some ds \<longrightarrow> d \<in> set ds \<longrightarrow>
          in_product_id d = Some pid \<longrightarrow>
            (\<exists>pid'. accept_purchase_order od coll today oid eid s =
               (Inr (Error (InsufficientStock pid')), s)))"
proof -
  have none: "\<not> check_stock (products s) pid q" for q
    using assms by (simp add: check_stock_def)
  have "\<exists>pid'. accept_purchase_order od coll today oid eid s =
               (Inr (Error (InsufficientStock pid')), s)"
    if wf: "well_formed_order od" and ds: "in_items od = Some ds" and d: "d \<in> set ds"
      and pid: "in_product_id d = Some pid"
  proof -
    from wf ds d have "well_formed_item d"
      by (auto simp: well_formed_order_def list_all_iff split: option.splits)
    with pid obtain n where n: "in_quantity d = Some (PyInt n)"
      by (auto simp: well_formed_item_def split: option.splits pyval.splits)
    from wf ds d pid n none [of n] show ?thesis by (rule rejected_when_short)
  qed
  with none show ?thesis by blast
qed

theorem C10_unknown_product_witness:
  "get_product (products sample_system) ''prod_abc1'' = None \<and>
   \<not> check_stock (products sample_system) ''prod_abc1'' 1 \<and>
   well_formed_order sample_order_1 \<and>
   (\<exists>pid'. accept_purchase_order sample_order_1 NoCollection 0 ''o1'' ''e1'' sample_system =
      (Inr (Error (InsufficientStock pid')), sample_system))"
proof -
  have unknown: "get_product (products sample_system) ''prod_abc1'' = None"
    by (simp add: get_product_def sample_system_def sample_products_def)
  have wf: "well_formed_order sample_order_1"
    by (simp add: well_formed_order_def well_formed_item_def sample_order_1_def order_of_def
        order_item_def)
  have ds: "in_items sample_order_1 =
      Some [order_item ''prod_abc1'' 1 1200, order_item ''prod_xyz1'' 2 25]"
    by (simp add: sample_order_1_def order_of_def)
  have d: "order_item ''prod_abc1'' 1 1200 \<in>
      set [order_item ''prod_abc1'' 1 1200, order_item ''prod_xyz1'' 2 25]"
    by simp
  have pid: "in_product_id (order_item ''prod_abc1'' 1 1200) = Some ''prod_abc1''"
    by (simp add: order_item_def)
  show ?thesis
    using unknown wf ds d pid
      C10_unknown_product [OF unknown, of sample_order_1
        "[order_item ''prod_abc1'' 1 1200, order_item ''prod_xyz1'' 2 25]"
        "order_item ''prod_abc1'' 1 1200" NoCollection 0 "''o1''" "''e1''"]
    by blast
qed

text \<open>
  Claim C5, evaluated at an order whose posting fails. The ledger has no account named
  \<open>Cash\<close>; the order asks for 2 of the 100 units in stock. The stock update has run when
  \<open>get_account\<close> raises; the handler of step 6 returns the error result and adds nothing
  back: the stock stays at 98. The only loop that adds stock back is the one for a failed
  payment, which \<open>restore_items\<close> models.
\<close>

theorem C5_stock_not_restored:
  "accept_purchase_order mouse_order NoCollection 0 ''o1'' ''e1'' no_cash_system =
     (Inr (Error (TransactionFailed (AccountNotFound ''Cash''))),
      no_cash_system\<lparr>products := sample_products(''prod_xyz'' \<mapsto>
        \<lparr>product_id = ''prod_xyz'', product_name = ''Mouse'',
         price = 25, stock = 98, cost_price = 10\<rparr>)\<rparr>) \<and>
   map_option stock (products no_cash_system ''prod_xyz'') = Some 100"
  by (simp add: order_defs mouse_order_def no_cash_system_def sample_system_def
      sample_products_def)

text \<open>
  Claim C6, as the code has it. An order of 2 units at unit price 25.00 of a product in
  stock whose cost price is 10.00, with the four accounts of the sale registered and no
  failing collection, is accepted with total 50.00; one journal entry is committed, with
  four lines: the sale pair (Cash debited 50.00, Sales Revenue credited 50.00) and the
  pair for the cost of goods sold, 20.00 (Cost of Goods Sold debited, Inventory credited).
  The entry is balanced, and the stock goes down by 2.
\<close>

theorem C6_one_entry_with_two_pairs:
  assumes "get_product (products s) pid = Some p" and "cost_price p = 10" and "2 \<le> stock p"
    and "map_of (accounts s) ''Cash'' = Some cash"
    and "map_of (accounts s) ''Sales Revenue'' = Some revenue"
    and "map_of (accounts s) ''Cost of Goods Sold'' = Some cogs"
    and "map_of (accounts s) ''Inventory'' = Some inv_asset"
    and "coll \<noteq> InsertRaises"
  shows "fst (accept_purchase_order (order_of cust [order_item pid 2 25]) coll today oid eid s)
           = Inr (Success oid 50) \<and>
         journal_entries
             (snd (accept_purchase_order (order_of cust [order_item pid 2 25]) coll today oid eid s))
           = journal_entries s @
               [\<lparr>date = today, description = ''Sale for order '' @ oid,
                 lines = [\<lparr>account = cash, amount = 50, entry_type = DEBIT\<rparr>,
                          \<lparr>account = revenue, amount = 50, entry_type = CREDIT\<rparr>,
                          \<lparr>account = cogs, amount = 20, entry_type = DEBIT\<rparr>,
                          \<lparr>account = inv_asset, amount = 20, entry_type = CREDIT\<rparr>],
                 entry_id = eid\<rparr>] \<and>
         is_balanced
           \<lparr>date = today, description = ''Sale for order '' @ oid,
            lines = [\<lparr>account = cash, amount = 50, entry_type = DEBIT\<rparr>,
                     \<lparr>account = revenue, amount = 50, entry_type = CREDIT\<rparr>,
                     \<lparr>account = cogs, amount = 20, entry_type = DEBIT\<rparr>,
                     \<lparr>account = inv_asset, amount = 20, entry_type = CREDIT\<rparr>],
            entry_id = eid\<rparr> \<and>
         products
             (snd (accept_purchase_order (order_of cust [order_item pid 2 25]) coll today oid eid s))
           = (products s)(pid \<mapsto> p\<lparr>stock := stock p - 2\<rparr>)"
  using assms by (simp add: order_defs)

theorem C6_one_entry_with_two_pairs_witness:
  "get_product (products sample_system) ''prod_xyz'' =
     Some \<lparr>product_id = ''prod_xyz'', product_name = ''Mouse'',
           price = 25, stock = 100, cost_price = 10\<rparr> \<and>
   map_of (accounts sample_system) ''Cash'' = Some 0 \<and>
   map_of (accounts sample_system) ''Sales Revenue'' = Some 6 \<and>
   map_of (accounts sample_system) ''Cost of Goods Sold'' = Some 7 \<and>
   map_of (accounts sample_system) ''Inventory'' = Some 2 \<and>
   fst (accept_purchase_order mouse_order NoCollection 0 ''o1'' ''e1'' sample_system)
     = Inr (Success ''o1'' 50) \<and>
   journal_entries (snd (accept_purchase_order mouse_order NoCollection 0 ''o1'' ''e1'' sample_system))
     = [\<lparr>date = 0, description = ''Sale for order o1'',
         lines = [\<lparr>account = 0, amount = 50, entry_type = DEBIT\<rparr>,
                  \<lparr>account = 6, amount = 50, entry_type = CREDIT\<rparr>,
                  \<lparr>account = 7, amount = 20, entry_type = DEBIT\<rparr>,
                  \<lparr>account = 2, amount = 20, entry_type = CREDIT\<rparr>],
         entry_id = ''e1''\<rparr>]"
proof -
  have p: "get_product (products sample_system) ''prod_xyz'' =
     Some \<lparr>product_id = ''prod_xyz'', product_name = ''Mouse'',
           price = 25, stock = 100, cost_price = 10\<rparr>"
    by (simp add: get_product_def sample_system_def sample_products_def)
  have cost: "cost_price \<lparr>product_id = ''prod_xyz'', product_name = ''Mouse'',
           price = 25, stock = 100, cost_price = 10\<rparr> = 10"
    and enough: "2 \<le> stock \<lparr>product_id = ''prod_xyz'', product_name = ''Mouse'',
           price = 25, stock = 100, cost_price = 10\<rparr>"
    by simp_all
  have a: "map_of (accounts sample_system) ''Cash'' = Some 0"
    and b: "map_of (accounts sample_system) ''Sales Revenue'' = Some 6"
    and c: "map_of (accounts sample_system) ''Cost of Goods Sold'' = Some 7"
    and d: "map_of (accounts sample_system) ''Inventory'' = Some 2"
    by (simp_all add: sample_system_def)
  have coll: "NoCollection \<noteq> InsertRaises" by simp
  have none: "journal_entries sample_system = []"
    by (simp add: sample_system_def)
  show ?thesis
    using p a b c d none
      C6_one_entry_with_two_pairs [OF p cost enough a b c d coll, of "''cust_1236''" 0 "''o1''" "''e1''"]
    by (simp add: mouse_order_def)
qed

text \<open>
  The sale of the two mice does not commit two journal entries: the committed entries
  after the call are not the ones before followed by two more.
\<close>

theorem C6_two_entries_counterexample:
  "\<not> (\<exists>e1 e2. journal_entries
         (snd (accept_purchase_order mouse_order NoCollection 0 ''o1'' ''e1'' sample_system))
       = journal_entries sample_system @ [e1, e2])"
  by (simp add: order_defs mouse_order_def sample_system_def sample_products_def)

end
